theory Spec2Isabelle
  imports Main "HOL-Library.Char_ord" "HOL-Library.List_Lexorder"
begin

section \<open>GPX to Fulcrum geometry updater: a model of \<^verbatim>\<open>fulcrum_gpx_convert.py\<close>\<close>

text \<open>
  The script reads GPS track files, matches each one to a row of \<^verbatim>\<open>data.csv\<close> by the
  file's stem, replaces the geometry of the remote record named in that row, and writes the
  geometry text back into the row.

  Conventions of the model.
  \<^item> A coordinate value is a Python float. The model is polymorphic in the type \<open>'c\<close> of
    coordinate values, and the text that an f-string \<^verbatim>\<open>f"{x}"\<close> produces for such a value is
    a parameter \<open>fmt :: 'c \<Rightarrow> string\<close>.
  \<^item> A Python exception is a value of \<open>py_exception\<close>; a function that may raise returns
    \<open>py_exception + 'a\<close>, with \<open>Inl\<close> for the exception.
  \<^item> The file system, the CSV reader, the GPX parser and the HTTP server are the fields of an
    environment record; what the script does to the outside (requests sent, the directory
    scanned, the table rewritten) is recorded in the state it returns.
  \<^item> Console output is not modelled, and \<^verbatim>\<open>print\<close> is taken to succeed. An interrupt
    from the keyboard is not modelled either.
  \<^item> File names are matched and compared as on a POSIX system: by their characters, with
    upper and lower case distinct.
\<close>

subsection \<open>Geometry formatter\<close>

text \<open>Python's \<^verbatim>\<open>sep.join(parts)\<close>.\<close>

fun py_join :: "string \<Rightarrow> string list \<Rightarrow> string" where
  "py_join sep [] = []"
| "py_join sep [x] = x"
| "py_join sep (x # y # ys) = x @ sep @ py_join sep (y # ys)"

text \<open>The f-string \<^verbatim>\<open>f"{lon} {lat}"\<close> of one coordinate \<^verbatim>\<open>[lon, lat]\<close>; a coordinate is a pair.\<close>

fun coord_text :: "('c \<Rightarrow> string) \<Rightarrow> 'c \<times> 'c \<Rightarrow> string" where
  "coord_text fmt (lon, lat) = fmt lon @ '' '' @ fmt lat"

text \<open>
  \<^verbatim>\<open>
  def linestring_wkt(coords):
      if not coords:
          return ''
      coord_str = ', '.join(f"{lon} {lat}" for lon, lat in coords)
      return f"LINESTRING({coord_str})"
  \<close>
\<close>

definition linestring_wkt :: "('c \<Rightarrow> string) \<Rightarrow> ('c \<times> 'c) list \<Rightarrow> string" where
  "linestring_wkt fmt coords =
     (if coords = [] then []
      else (let coord_str = py_join '', '' (map (coord_text fmt) coords)
            in ''LINESTRING('' @ coord_str @ '')''))"

subsection \<open>Exceptions and exits\<close>

datatype py_exception =
  OSError | StopIteration | ValueError | IndexError | KeyError | TypeError
  | AttributeError | JSONDecodeError | RequestException | GPXException

text \<open>
  What leaves a function other than a returned value: an exception that
  \<^verbatim>\<open>except Exception\<close> catches, or \<^verbatim>\<open>sys.exit(code)\<close>, which it does not catch.
\<close>

datatype error = Exception py_exception | SystemExit nat

subsection \<open>Track reader\<close>

text \<open>The object tree that \<^verbatim>\<open>gpxpy.parse\<close> returns, as far as the script reads it.\<close>

datatype 'c gpx_point = GPXTrackPoint (longitude: 'c) (latitude: 'c)
datatype 'c gpx_segment = GPXTrackSegment (points: "'c gpx_point list")
datatype 'c gpx_track = GPXTrack (segments: "'c gpx_segment list")
datatype 'c gpx = GPX (tracks: "'c gpx_track list")

text \<open>
  \<^verbatim>\<open>
  def extract_linestring_from_gpx(gpx_path):
      with open(gpx_path, 'r') as gpx_file:
          gpx = gpxpy.parse(gpx_file)
      coordinates = []
      for track in gpx.tracks:
          for segment in track.segments:
              for point in segment.points:
                  coordinates.append([point.longitude, point.latitude])
      return coordinates
  \<close>
  \<open>gpx_parse\<close> is opening and parsing the file of a given name, which may raise.
\<close>

definition segment_coordinates :: "'c gpx_segment \<Rightarrow> ('c \<times> 'c) list" where
  "segment_coordinates segment = map (\<lambda>point. (longitude point, latitude point)) (points segment)"

definition track_coordinates :: "'c gpx_track \<Rightarrow> ('c \<times> 'c) list" where
  "track_coordinates track = concat (map segment_coordinates (segments track))"

definition extract_linestring_from_gpx ::
  "(string \<Rightarrow> py_exception + 'c gpx) \<Rightarrow> string \<Rightarrow> py_exception + ('c \<times> 'c) list" where
  "extract_linestring_from_gpx gpx_parse gpx_path =
     (case gpx_parse gpx_path of
        Inl e \<Rightarrow> Inl e
      | Inr gpx \<Rightarrow> Inr (concat (map track_coordinates (tracks gpx))))"

subsection \<open>Token loader\<close>

text \<open>
  The characters that \<^verbatim>\<open>str.strip()\<close> removes, among the 7-bit ones (a \<open>char\<close> is a
  byte; the whitespace of Unicode beyond ASCII is outside the model).
\<close>

definition py_isspace :: "char \<Rightarrow> bool" where
  "py_isspace c =
     (c \<in> set [CHR 0x09, CHR 0x0A, CHR 0x0B, CHR 0x0C, CHR 0x0D,
                CHR 0x1C, CHR 0x1D, CHR 0x1E, CHR 0x1F, CHR 0x20])"

definition py_strip :: "string \<Rightarrow> string" where
  "py_strip s = rev (dropWhile py_isspace (rev (dropWhile py_isspace s)))"

text \<open>
  \<^verbatim>\<open>
  def read_api_token():
      token_file = ".fulcrum_api_token"
      if os.path.isfile(token_file):
          with open(token_file, "r") as f:
              token = f.read().strip()
              if token:
                  return token
      print(f"API token file '{token_file}' not found or empty.")
      sys.exit(1)
  \<close>
  The argument is the token file: \<open>None\<close> when there is no such regular file, otherwise
  what opening and reading it gives.
\<close>

definition read_api_token :: "(py_exception + string) option \<Rightarrow> error + string" where
  "read_api_token token_file =
     (case token_file of
        None \<Rightarrow> Inl (SystemExit 1)
      | Some (Inl e) \<Rightarrow> Inl (Exception e)
      | Some (Inr content) \<Rightarrow>
          (let token = py_strip content
           in if token \<noteq> [] then Inr token else Inl (SystemExit 1)))"

subsection \<open>Record client\<close>

text \<open>JSON values as Python holds them; a dict is an association list.\<close>

datatype 'c json =
  JNull | JBool bool | JNumber 'c | JString string
  | JArray "'c json list" | JObject "(string \<times> 'c json) list"

text \<open>\<^verbatim>\<open>value[key]\<close> with a string key: only a dict that has the key returns.\<close>

fun py_getitem :: "'c json \<Rightarrow> string \<Rightarrow> py_exception + 'c json" where
  "py_getitem (JObject kvs) key =
     (case map_of kvs key of None \<Rightarrow> Inl KeyError | Some v \<Rightarrow> Inr v)"
| "py_getitem _ key = Inl TypeError"

text \<open>\<^verbatim>\<open>value.get(key, default)\<close>: only a dict has the method.\<close>

fun py_get :: "'c json \<Rightarrow> string \<Rightarrow> 'c json \<Rightarrow> py_exception + 'c json" where
  "py_get (JObject kvs) key dflt =
     Inr (case map_of kvs key of None \<Rightarrow> dflt | Some v \<Rightarrow> v)"
| "py_get _ key dflt = Inl AttributeError"

datatype 'c request =
  GET string "(string \<times> string) list"
  | PATCH string "(string \<times> string) list" "'c json"

text \<open>
  A response: its status and what \<^verbatim>\<open>.json()\<close> gives (the body text is only printed).
\<close>

record 'c response =
  status_code :: nat
  json_body :: "py_exception + 'c json"

text \<open>
  The remote service answers a request given the requests sent before it; \<open>Inl\<close> is an
  exception raised by the HTTP client.
\<close>

type_synonym 'c server = "'c request list \<Rightarrow> 'c request \<Rightarrow> py_exception + 'c response"

definition record_url :: "string \<Rightarrow> string" where
  "record_url record_id = ''https://api.fulcrumapp.com/api/v2/records/'' @ record_id @ ''.json''"

definition request_headers :: "string \<Rightarrow> (string \<times> string) list" where
  "request_headers api_token =
     [(''Accept'', ''application/json''),
      (''Content-Type'', ''application/json''),
      (''X-ApiToken'', api_token)]"

definition geometry_payload :: "'c json \<Rightarrow> ('c \<times> 'c) list \<Rightarrow> 'c json" where
  "geometry_payload form_values coords =
     JObject [(''record'', JObject
       [(''form_values'', form_values),
        (''geometry'', JObject
          [(''type'', JString ''LineString''),
           (''coordinates'',
              JArray (map (\<lambda>(lon, lat). JArray [JNumber lon, JNumber lat]) coords))])])]"

text \<open>
  \<^verbatim>\<open>
  def update_fulcrum_record(record_id, coords, api_token):
      url = f"https://api.fulcrumapp.com/api/v2/records/{record_id}.json"
      headers = {"Accept": "application/json", "Content-Type": "application/json",
                 "X-ApiToken": api_token}
      get_resp = requests.get(url, headers=headers)
      if get_resp.status_code != 200:
          return False
      record_data = get_resp.json()["record"]
      payload = {"record": {"form_values": record_data.get("form_values", {}),
                            "geometry": {"type": "LineString", "coordinates": coords}}}
      patch_resp = requests.patch(url, headers=headers, json=payload)
      if patch_resp.status_code == 200:
          return True
      else:
          return False
  \<close>
  The function takes the requests sent so far and returns them extended by its own.
\<close>

definition update_fulcrum_record ::
  "'c server \<Rightarrow> 'c request list \<Rightarrow> string \<Rightarrow> ('c \<times> 'c) list \<Rightarrow> string
     \<Rightarrow> (py_exception + bool) \<times> 'c request list" where
  "update_fulcrum_record srv log record_id coords api_token =
     (let url = record_url record_id;
          headers = request_headers api_token;
          log1 = log @ [GET url headers]
      in case srv log (GET url headers) of
           Inl e \<Rightarrow> (Inl e, log1)
         | Inr get_resp \<Rightarrow>
             if status_code get_resp \<noteq> 200 then (Inr False, log1)
             else
               (case json_body get_resp of
                  Inl e \<Rightarrow> (Inl e, log1)
                | Inr body \<Rightarrow>
                    (case py_getitem body ''record'' of
                       Inl e \<Rightarrow> (Inl e, log1)
                     | Inr record_data \<Rightarrow>
                         (case py_get record_data ''form_values'' (JObject []) of
                            Inl e \<Rightarrow> (Inl e, log1)
                          | Inr form_values \<Rightarrow>
                              (let payload = geometry_payload form_values coords;
                                   log2 = log1 @ [PATCH url headers payload]
                               in case srv log1 (PATCH url headers payload) of
                                    Inl e \<Rightarrow> (Inl e, log2)
                                  | Inr patch_resp \<Rightarrow>
                                      (Inr (status_code patch_resp = 200), log2))))))"

subsection \<open>Spreadsheet matcher\<close>

text \<open>\<^verbatim>\<open>xs.index(x)\<close>: the first position of \<open>x\<close>, \<open>None\<close> where Python raises ValueError.\<close>

fun list_index :: "'a list \<Rightarrow> 'a \<Rightarrow> nat option" where
  "list_index [] x = None"
| "list_index (y # ys) x =
     (if y = x then Some 0 else map_option Suc (list_index ys x))"

definition day_idx :: nat where "day_idx = 0"
definition fulcrum_id_idx :: nat where "fulcrum_id_idx = 1"

text \<open>
  \<^verbatim>\<open>
  day_to_row = {}
  for i, row in enumerate(rows):
      if len(row) > max(day_idx, fulcrum_id_idx):
          day_to_row[row[day_idx]] = (i, row[fulcrum_id_idx])
  \<close>
\<close>

definition add_row ::
  "nat \<times> string list \<Rightarrow> (string \<rightharpoonup> nat \<times> string) \<Rightarrow> (string \<rightharpoonup> nat \<times> string)" where
  "add_row p day_to_row =
     (case p of (i, row) \<Rightarrow>
        if length row > max day_idx fulcrum_id_idx
        then day_to_row(row ! day_idx \<mapsto> (i, row ! fulcrum_id_idx))
        else day_to_row)"

definition build_day_to_row :: "string list list \<Rightarrow> (string \<rightharpoonup> nat \<times> string)" where
  "build_day_to_row rows = fold add_row (enumerate 0 rows) Map.empty"

text \<open>
  The body of the \<^verbatim>\<open>try\<close> that reads the table. The argument is what
  \<^verbatim>\<open>csv.reader\<close> yields for \<^verbatim>\<open>data.csv\<close>, or the exception that opening or reading
  raises. The result is the header, the data rows, the position of the column named
  \<^verbatim>\<open>geometry\<close> and the lookup.
\<close>

definition read_table ::
  "(py_exception + string list list)
     \<Rightarrow> error + (string list \<times> string list list \<times> nat \<times> (string \<rightharpoonup> nat \<times> string))" where
  "read_table csv =
     (case csv of
        Inl e \<Rightarrow> Inl (Exception e)
      | Inr [] \<Rightarrow> Inl (Exception StopIteration)
      | Inr (header # rows) \<Rightarrow>
          (case list_index header ''geometry'' of
             None \<Rightarrow> Inl (SystemExit 1)
           | Some geometry_idx \<Rightarrow> Inr (header, rows, geometry_idx, build_day_to_row rows)))"

subsection \<open>Orchestrator\<close>

text \<open>\<^verbatim>\<open>s.endswith(suffix)\<close>.\<close>

definition endswith :: "string \<Rightarrow> string \<Rightarrow> bool" where
  "endswith s suf = (length suf \<le> length s \<and> drop (length s - length suf) s = suf)"

text \<open>
  \<^verbatim>\<open>gpx_dir.glob("*" + ext)\<close> over the names in the directory, on a file system whose
  names are case-sensitive: the star matches any run of characters, the rest matches itself.
\<close>

definition glob_star :: "string \<Rightarrow> string list \<Rightarrow> string list" where
  "glob_star ext names = filter (\<lambda>name. endswith name ext) names"

text \<open>\<^verbatim>\<open>list(gpx_dir.glob("*.gpx")) + list(gpx_dir.glob("*.GPX"))\<close>\<close>

definition gpx_files :: "string list \<Rightarrow> string list" where
  "gpx_files names = glob_star ''.gpx'' names @ glob_star ''.GPX'' names"

text \<open>\<^verbatim>\<open>s.rfind(c)\<close> for one character: its last position, or \<open>-1\<close>.\<close>

definition rfind :: "string \<Rightarrow> char \<Rightarrow> int" where
  "rfind s c =
     (if c \<in> set s
      then int (length s) - 1 - int (length (takeWhile (\<lambda>x. x \<noteq> c) (rev s)))
      else - 1)"

text \<open>
  \<^verbatim>\<open>Path.stem\<close>: the name up to its last dot, when that dot is neither the first nor
  the last character.
\<close>

definition stem :: "string \<Rightarrow> string" where
  "stem name =
     (let i = rfind name CHR ''.''
      in if 0 < i \<and> i < int (length name) - 1 then take (nat i) name else name)"

text \<open>The outside of the script.\<close>

record 'c env =
  gpx_dir_exists :: bool
  gpx_dir_is_dir :: bool
  csv_exists :: bool
  token_file :: "(py_exception + string) option"
  csv_file :: "py_exception + string list list"
  gpx_dir_names :: "string list"
  gpx_parse :: "string \<Rightarrow> py_exception + 'c gpx"
  server :: "'c server"

text \<open>What the loop over the track files changes.\<close>

record 'c run_state =
  rows :: "string list list"
  updated_count :: nat
  requests :: "'c request list"

text \<open>
  One turn of the loop of \<^verbatim>\<open>main\<close>:
  \<^verbatim>\<open>
  date_str = gpx_file.stem
  if date_str not in day_to_row:
      continue
  row_idx, fulcrum_id = day_to_row[date_str]
  if not fulcrum_id:
      continue
  try:
      coords = extract_linestring_from_gpx(gpx_file)
      if not coords:
          continue
      if update_fulcrum_record(fulcrum_id, coords, api_token):
          wkt_geom = linestring_wkt(coords)
          if len(rows[row_idx]) > geometry_idx:
              rows[row_idx][geometry_idx] = wkt_geom
          updated_count += 1
  except Exception as e:
      print(...)
  \<close>
  \<^verbatim>\<open>rows[row_idx]\<close> raises IndexError out of range, which the handler catches.
\<close>

definition process_file ::
  "('c \<Rightarrow> string) \<Rightarrow> 'c env \<Rightarrow> string \<Rightarrow> nat \<Rightarrow> (string \<rightharpoonup> nat \<times> string)
     \<Rightarrow> string \<Rightarrow> 'c run_state \<Rightarrow> 'c run_state" where
  "process_file fmt env api_token geometry_idx day_to_row gpx_file st =
     (let date_str = stem gpx_file
      in case day_to_row date_str of
           None \<Rightarrow> st
         | Some (row_idx, fulcrum_id) \<Rightarrow>
             if fulcrum_id = [] then st
             else
               (case extract_linestring_from_gpx (gpx_parse env) gpx_file of
                  Inl e \<Rightarrow> st
                | Inr coords \<Rightarrow>
                    if coords = [] then st
                    else
                      (case update_fulcrum_record (server env) (requests st)
                              fulcrum_id coords api_token of
                         (Inl e, log) \<Rightarrow> st\<lparr>requests := log\<rparr>
                       | (Inr updated, log) \<Rightarrow>
                           if updated then
                             (let wkt_geom = linestring_wkt fmt coords
                              in if row_idx < length (rows st) then
                                   st\<lparr>rows :=
                                        (if length (rows st ! row_idx) > geometry_idx
                                         then (rows st)[row_idx :=
                                                 (rows st ! row_idx)[geometry_idx := wkt_geom]]
                                         else rows st),
                                      updated_count := updated_count st + 1,
                                      requests := log\<rparr>
                                 else st\<lparr>requests := log\<rparr>)
                           else st\<lparr>requests := log\<rparr>)))"

text \<open>The loop: the files in the order given.\<close>

definition run_files ::
  "('c \<Rightarrow> string) \<Rightarrow> 'c env \<Rightarrow> string \<Rightarrow> nat \<Rightarrow> (string \<rightharpoonup> nat \<times> string)
     \<Rightarrow> string list \<Rightarrow> 'c run_state \<Rightarrow> 'c run_state" where
  "run_files fmt env api_token geometry_idx day_to_row files st =
     fold (process_file fmt env api_token geometry_idx day_to_row) files st"

text \<open>
  What a run leaves behind: the exit status of the process, whether the track directory
  was scanned, the requests sent in order, and the table written to \<^verbatim>\<open>data.csv\<close>
  (header first), if the script rewrote it.
\<close>

record 'c outcome =
  exit_code :: nat
  dir_scanned :: bool
  sent :: "'c request list"
  table_written :: "string list list option"

definition aborted :: "nat \<Rightarrow> 'c outcome" where
  "aborted code = \<lparr>exit_code = code, dir_scanned = False, sent = [], table_written = None\<rparr>"

text \<open>
  \<^verbatim>\<open>main\<close>. The checks come in the source's order: the directory, the table file, the
  token, and the table with its \<^verbatim>\<open>geometry\<close> column. An exception raised while the token
  or the table is read is caught and ends in \<^verbatim>\<open>sys.exit(1)\<close>; a \<^verbatim>\<open>sys.exit\<close> raised there
  passes through the handler. Then come the scan, the loop over the sorted files, and the
  rewrite of the table when \<^verbatim>\<open>updated_count > 0\<close>. A failure of the rewrite is caught and
  only printed, so the exit status is 0 either way; \<open>table_written\<close> is what the script
  hands to the writer. The paths of one directory sort as their names do. A run that returns
  from \<^verbatim>\<open>main\<close> has exit status 0.
\<close>

definition main :: "('c \<Rightarrow> string) \<Rightarrow> 'c env \<Rightarrow> 'c outcome" where
  "main fmt env =
     (if \<not> gpx_dir_exists env \<or> \<not> gpx_dir_is_dir env then aborted 1
      else if \<not> csv_exists env then aborted 1
      else
        (case read_api_token (token_file env) of
           Inl (SystemExit code) \<Rightarrow> aborted code
         | Inl (Exception e) \<Rightarrow> aborted 1
         | Inr api_token \<Rightarrow>
             (case read_table (csv_file env) of
                Inl (SystemExit code) \<Rightarrow> aborted code
              | Inl (Exception e) \<Rightarrow> aborted 1
              | Inr (header, init_rows, geometry_idx, day_to_row) \<Rightarrow>
                  (let files = gpx_files (gpx_dir_names env)
                   in if files = [] then
                        \<lparr>exit_code = 0, dir_scanned = True, sent = [], table_written = None\<rparr>
                      else
                        (let st = run_files fmt env api_token geometry_idx day_to_row
                                    (sort files)
                                    \<lparr>rows = init_rows, updated_count = 0, requests = []\<rparr>
                         in \<lparr>exit_code = 0, dir_scanned = True, sent = requests st,
                             table_written =
                               (if updated_count st > 0 then Some (header # rows st)
                                else None)\<rparr>)))))"

subsection \<open>Reading the geometry text back\<close>

text \<open>\<^verbatim>\<open>s.split(c)\<close> for one character.\<close>

fun split_char :: "char \<Rightarrow> string \<Rightarrow> string list" where
  "split_char c [] = [[]]"
| "split_char c (x # xs) =
     (if x = c then [] # split_char c xs
      else (case split_char c xs of [] \<Rightarrow> [[x]] | p # ps \<Rightarrow> (x # p) # ps))"

text \<open>One \<^verbatim>\<open>lon lat\<close> item; \<open>unfmt\<close> reads one number.\<close>

definition parse_coord :: "(string \<Rightarrow> 'c option) \<Rightarrow> string \<Rightarrow> ('c \<times> 'c) option" where
  "parse_coord unfmt s =
     (case split_char CHR '' '' s of
        [a, b] \<Rightarrow> (case (unfmt a, unfmt b) of
                     (Some lon, Some lat) \<Rightarrow> Some (lon, lat)
                   | _ \<Rightarrow> None)
      | _ \<Rightarrow> None)"

text \<open>
  Modelled from the spec: the reader of the round-trip property (section 8, "formatting then
  parsing back the coordinate list from the produced text"), which the repository does not
  contain. It takes the empty text to the empty sequence, and otherwise strips
  \<^verbatim>\<open>LINESTRING(\<close> and \<^verbatim>\<open>)\<close>, splits at the commas, drops the space after each comma
  and reads every item.
\<close>

definition parse_linestring_wkt :: "(string \<Rightarrow> 'c option) \<Rightarrow> string \<Rightarrow> ('c \<times> 'c) list option" where
  "parse_linestring_wkt unfmt s =
     (if s = [] then Some []
      else if take 11 s = ''LINESTRING('' \<and> last s = CHR '')'' then
        (case split_char CHR '','' (butlast (drop 11 s)) of
           [] \<Rightarrow> None
         | first # rest \<Rightarrow>
             if list_all (\<lambda>p. take 1 p = '' '') rest
             then those (map (parse_coord unfmt) (first # map (drop 1) rest))
             else None)
      else None)"

text \<open>A coordinate value whose text reads back and holds neither separator.\<close>

definition reads_back :: "('c \<Rightarrow> string) \<Rightarrow> (string \<Rightarrow> 'c option) \<Rightarrow> 'c \<Rightarrow> bool" where
  "reads_back fmt unfmt x =
     (unfmt (fmt x) = Some x \<and> CHR '' '' \<notin> set (fmt x)
      \<and> CHR '','' \<notin> set (fmt x))"

subsection \<open>Extensions without regard to case\<close>

text \<open>
  Modelled from the spec: the case-insensitive comparison of an extension (section 4.6), as the
  lower-case form of a 7-bit character.
\<close>

definition ascii_lower :: "char \<Rightarrow> char" where
  "ascii_lower c =
     (case map_of (zip ''ABCDEFGHIJKLMNOPQRSTUVWXYZ'' ''abcdefghijklmnopqrstuvwxyz'') c of
        None \<Rightarrow> c
      | Some d \<Rightarrow> d)"

subsection \<open>A sample run\<close>

text \<open>
  Concrete data on which the properties below are evaluated. A coordinate value is given by
  its decimal text, so that \<open>fmt\<close> is the identity. The sample server answers every fetch
  with one record and every request with the status it is given.
\<close>

definition sample_track :: "string gpx" where
  "sample_track =
     GPX [GPXTrack [GPXTrackSegment [GPXTrackPoint ''-122.5'' ''37.7''],
                    GPXTrackSegment [GPXTrackPoint ''-122.6'' ''37.8'']]]"

definition other_track :: "string gpx" where
  "other_track = GPX [GPXTrack [GPXTrackSegment [GPXTrackPoint ''-1.25'' ''50.5'']]]"

definition sample_record :: "string json" where
  "sample_record =
     JObject [(''record'', JObject [(''id'', JString ''rec-1''),
                                   (''form_values'', JObject [(''c0de'', JString ''Day 1'')])])]"

definition sample_server :: "nat \<Rightarrow> nat \<Rightarrow> string server" where
  "sample_server get_status patch_status log req =
     (case req of
        GET url hs \<Rightarrow> Inr \<lparr>status_code = get_status, json_body = Inr sample_record\<rparr>
      | PATCH url hs payload \<Rightarrow> Inr \<lparr>status_code = patch_status, json_body = Inr payload\<rparr>)"

definition sample_env :: "string list list \<Rightarrow> string list \<Rightarrow> nat \<Rightarrow> nat \<Rightarrow> string env" where
  "sample_env table names get_status patch_status =
     \<lparr>gpx_dir_exists = True, gpx_dir_is_dir = True, csv_exists = True,
      token_file = Some (Inr (''s3cret'' @ [CHR 0x0A])),
      csv_file = Inr table,
      gpx_dir_names = names,
      gpx_parse = (\<lambda>name. if name = ''2024-05-01.gpx'' then Inr sample_track
                            else if name = ''2024-05-01.GPX'' then Inr other_track
                            else if name = ''2024-05-02.gpx'' then Inr (GPX [])
                            else Inl GPXException),
      server = sample_server get_status patch_status\<rparr>"

definition sample_table :: "string list list" where
  "sample_table =
     [[''day'', ''fulcrum_id'', ''notes'', ''geometry''],
      [''2024-05-01'', ''rec-1'', ''first day'', ''''],
      [''2024-05-02'', ''rec-2'', ''rest day'', '''']]"

definition short_table :: "string list list" where
  "short_table =
     [[''day'', ''fulcrum_id'', ''notes'', ''geometry''],
      [''2024-05-01'', ''rec-1'']]"

section \<open>Auxiliary facts\<close>

subsection \<open>Geometry formatter\<close>

lemma py_join_Cons:
  "py_join sep (x # xs) = x @ concat (map (\<lambda>y. sep @ y) xs)"
  by (induction xs arbitrary: x) simp_all

lemma linestring_wkt_Cons:
  "linestring_wkt fmt (c # cs) =
     ''LINESTRING('' @ coord_text fmt c @
       concat (map (\<lambda>c'. '', '' @ coord_text fmt c') cs) @ '')''"
  unfolding linestring_wkt_def Let_def list.map py_join_Cons
  by (simp add: comp_def)

lemma linestring_wkt_length:
  "coords \<noteq> [] \<Longrightarrow> 13 \<le> length (linestring_wkt fmt coords)"
proof (cases coords)
  case Nil
  assume "coords \<noteq> []"
  with Nil show ?thesis by simp
next
  case (Cons c cs)
  obtain lon lat where c: "c = (lon, lat)" by (cases c)
  show ?thesis unfolding Cons c linestring_wkt_Cons by simp
qed

lemma linestring_wkt_not_empty_parens:
  "linestring_wkt fmt coords \<noteq> ''LINESTRING()''"
proof (cases "coords = []")
  case True
  then show ?thesis by (simp add: linestring_wkt_def)
next
  case False
  have "length ''LINESTRING()'' = 12" by simp
  with linestring_wkt_length [OF False, of fmt] show ?thesis
    by (metis Suc_n_not_le_n eval_nat_numeral(3))
qed

subsection \<open>Record client\<close>

lemma update_fulcrum_record_log:
  "\<exists>result rest. update_fulcrum_record srv log record_id coords api_token
       = (result, log @ GET (record_url record_id) (request_headers api_token) # rest)
     \<and> (rest = [] \<or> (\<exists>form_values. rest =
           [PATCH (record_url record_id) (request_headers api_token)
              (geometry_payload form_values coords)]))"
  unfolding update_fulcrum_record_def Let_def
  by (auto split: sum.split)



lemma update_fulcrum_record_fetch_refused:
  assumes "srv log (GET (record_url record_id) (request_headers api_token)) = Inr get_resp"
      and "status_code get_resp \<noteq> 200"
  shows "update_fulcrum_record srv log record_id coords api_token
       = (Inr False, log @ [GET (record_url record_id) (request_headers api_token)])"
  using assms unfolding update_fulcrum_record_def Let_def
  by simp

lemma update_fulcrum_record_patch_refused:
  assumes "srv log (GET (record_url record_id) (request_headers api_token)) = Inr get_resp"
      and "status_code get_resp = 200"
      and "json_body get_resp = Inr body"
      and "py_getitem body ''record'' = Inr (JObject record_kvs)"
      and "srv (log @ [GET (record_url record_id) (request_headers api_token)])
             (PATCH (record_url record_id) (request_headers api_token)
                (geometry_payload (case map_of record_kvs ''form_values'' of
                              None \<Rightarrow> JObject [] | Some v \<Rightarrow> v) coords)) = Inr patch_resp"
      and "status_code patch_resp \<noteq> 200"
  shows "update_fulcrum_record srv log record_id coords api_token
       = (Inr False, log @ [GET (record_url record_id) (request_headers api_token),
                        PATCH (record_url record_id) (request_headers api_token)
                          (geometry_payload (case map_of record_kvs ''form_values'' of
                              None \<Rightarrow> JObject [] | Some v \<Rightarrow> v) coords)])"
  using assms unfolding update_fulcrum_record_def Let_def
  by simp

lemma geometry_payload_empty:
  "geometry_payload form_values [] = geometry_payload form_values' coords \<Longrightarrow> coords = []"
  by (simp add: geometry_payload_def)

lemma update_fulcrum_record_no_empty_geometry:
  assumes "coords \<noteq> []"
      and "update_fulcrum_record srv log record_id coords api_token = (result, log')"
      and "PATCH url hs (geometry_payload form_values []) \<notin> set log"
  shows "PATCH url hs (geometry_payload form_values []) \<notin> set log'"
  using update_fulcrum_record_log [of srv log record_id coords api_token] assms
  by (auto dest: geometry_payload_empty)

subsection \<open>The lookup\<close>





subsection \<open>Candidate files\<close>

lemma endswith_same_length:
  "endswith s a \<Longrightarrow> endswith s b \<Longrightarrow> length a = length b \<Longrightarrow> a = b"
  by (auto simp: endswith_def)

lemma set_gpx_files:
  "set (gpx_files names) = {name \<in> set names. endswith name ''.gpx'' \<or> endswith name ''.GPX''}"
  by (auto simp: gpx_files_def glob_star_def)

lemma distinct_gpx_files: "distinct names \<Longrightarrow> distinct (gpx_files names)"
proof -
  have "\<not> (endswith name ''.gpx'' \<and> endswith name ''.GPX'')" for name
    using endswith_same_length [of name "''.gpx''" "''.GPX''"] by auto
  then show "distinct names \<Longrightarrow> distinct (gpx_files names)"
    by (auto simp: gpx_files_def glob_star_def)
qed

lemma sort_gpx_files_deterministic:
  assumes "distinct names" "distinct names'" "set names = set names'"
  shows "sort (gpx_files names) = sort (gpx_files names')"
proof (rule sorted_distinct_set_unique)
  show "sorted (sort (gpx_files names))" "sorted (sort (gpx_files names'))" by simp_all
  show "distinct (sort (gpx_files names))" "distinct (sort (gpx_files names'))"
    using assms by (simp_all add: distinct_gpx_files)
  show "set (sort (gpx_files names)) = set (sort (gpx_files names'))"
    using assms(3) by (simp add: set_gpx_files)
qed

subsection \<open>One turn of the loop\<close>

lemma process_file_no_match:
  "day_to_row (stem gpx_file) = None \<Longrightarrow>
   process_file fmt env api_token geometry_idx day_to_row gpx_file st = st"
  by (simp add: process_file_def)

lemma process_file_no_id:
  "day_to_row (stem gpx_file) = Some (row_idx, []) \<Longrightarrow>
   process_file fmt env api_token geometry_idx day_to_row gpx_file st = st"
  by (simp add: process_file_def)

lemma process_file_no_coords:
  "extract_linestring_from_gpx (gpx_parse env) gpx_file = Inr [] \<Longrightarrow>
   process_file fmt env api_token geometry_idx day_to_row gpx_file st = st"
  by (simp add: process_file_def split: option.split)

lemma process_file_parse_error:
  "extract_linestring_from_gpx (gpx_parse env) gpx_file = Inl e \<Longrightarrow>
   process_file fmt env api_token geometry_idx day_to_row gpx_file st = st"
  by (simp add: process_file_def split: option.split)

lemma process_file_update:
  assumes "day_to_row (stem gpx_file) = Some (row_idx, fulcrum_id)"
      and "fulcrum_id \<noteq> []"
      and "extract_linestring_from_gpx (gpx_parse env) gpx_file = Inr coords"
      and "coords \<noteq> []"
      and "update_fulcrum_record (server env) (requests st) fulcrum_id coords api_token
             = (result, log)"
  shows "process_file fmt env api_token geometry_idx day_to_row gpx_file st =
     (if result = Inr True \<and> row_idx < length (rows st)
      then st\<lparr>rows := (if geometry_idx < length (rows st ! row_idx)
                        then (rows st)[row_idx :=
                               (rows st ! row_idx)[geometry_idx := linestring_wkt fmt coords]]
                        else rows st),
              updated_count := updated_count st + 1,
              requests := log\<rparr>
      else st\<lparr>requests := log\<rparr>)"
  using assms by (simp add: process_file_def Let_def split: sum.split)

lemma process_file_effect:
  "process_file fmt env api_token geometry_idx day_to_row gpx_file st = st
   \<or> (\<exists>row_idx fulcrum_id coords result log.
         day_to_row (stem gpx_file) = Some (row_idx, fulcrum_id) \<and> fulcrum_id \<noteq> [] \<and>
         extract_linestring_from_gpx (gpx_parse env) gpx_file = Inr coords \<and> coords \<noteq> [] \<and>
         update_fulcrum_record (server env) (requests st) fulcrum_id coords api_token
           = (result, log) \<and>
         process_file fmt env api_token geometry_idx day_to_row gpx_file st =
           (if result = Inr True \<and> row_idx < length (rows st)
            then st\<lparr>rows := (if geometry_idx < length (rows st ! row_idx)
                        then (rows st)[row_idx :=
                               (rows st ! row_idx)[geometry_idx := linestring_wkt fmt coords]]
                        else rows st),
              updated_count := updated_count st + 1,
              requests := log\<rparr>
            else st\<lparr>requests := log\<rparr>))"
proof (cases "day_to_row (stem gpx_file)")
  case None
  then show ?thesis by (simp add: process_file_no_match)
next
  case (Some p)
  obtain row_idx fulcrum_id where p: "p = (row_idx, fulcrum_id)" by (cases p)
  show ?thesis
  proof (cases "fulcrum_id = []")
    case True
    with Some p show ?thesis by (simp add: process_file_no_id)
  next
    case False
    show ?thesis
    proof (cases "extract_linestring_from_gpx (gpx_parse env) gpx_file")
      case (Inl e)
      then show ?thesis by (simp add: process_file_parse_error)
    next
      case (Inr coords)
      show ?thesis
      proof (cases "coords = []")
        case True
        with Inr show ?thesis by (simp add: process_file_no_coords)
      next
        case ne: False
        obtain result log where
          u: "update_fulcrum_record (server env) (requests st) fulcrum_id coords api_token
                = (result, log)"
          by (cases "update_fulcrum_record (server env) (requests st) fulcrum_id coords api_token")
        from process_file_update [of day_to_row gpx_file row_idx fulcrum_id env coords st
               api_token result log fmt geometry_idx] Some p False Inr ne u
        show ?thesis by blast
      qed
    qed
  qed
qed






lemma process_file_no_empty_geometry:
  assumes "PATCH url hs (geometry_payload form_values []) \<notin> set (requests st)"
  shows "PATCH url hs (geometry_payload form_values []) \<notin>
           set (requests (process_file fmt env api_token geometry_idx day_to_row gpx_file st))"
proof -
  let ?st' = "process_file fmt env api_token geometry_idx day_to_row gpx_file st"
  from process_file_effect [of fmt env api_token geometry_idx day_to_row gpx_file st]
  consider "?st' = st"
    | fulcrum_id coords result log where "coords \<noteq> []"
        "update_fulcrum_record (server env) (requests st) fulcrum_id coords api_token
           = (result, log)"
        "requests ?st' = log"
    by (auto split: if_splits)
  then show ?thesis
  proof cases
    case 1
    with assms show ?thesis by simp
  next
    case 2
    from update_fulcrum_record_no_empty_geometry [OF 2(1) 2(2) assms] 2(3)
    show ?thesis by simp
  qed
qed

subsection \<open>The loop\<close>

lemma run_files_Nil [simp]:
  "run_files fmt env api_token geometry_idx day_to_row [] st = st"
  by (simp add: run_files_def)

lemma run_files_Cons [simp]:
  "run_files fmt env api_token geometry_idx day_to_row (f # fs) st =
     run_files fmt env api_token geometry_idx day_to_row fs
       (process_file fmt env api_token geometry_idx day_to_row f st)"
  by (simp add: run_files_def)







lemma run_files_no_empty_geometry:
  assumes "PATCH url hs (geometry_payload form_values []) \<notin> set (requests st)"
  shows "PATCH url hs (geometry_payload form_values []) \<notin>
           set (requests (run_files fmt env api_token geometry_idx day_to_row fs st))"
  using assms by (induction fs arbitrary: st) (simp_all add: process_file_no_empty_geometry)


subsection \<open>The run\<close>





lemma main_run:
  assumes "gpx_dir_exists env" "gpx_dir_is_dir env" "csv_exists env"
      and "read_api_token (token_file env) = Inr api_token"
      and "read_table (csv_file env) = Inr (header, init_rows, geometry_idx, day_to_row)"
  shows "main fmt env =
     (let st = run_files fmt env api_token geometry_idx day_to_row
                 (sort (gpx_files (gpx_dir_names env)))
                 \<lparr>rows = init_rows, updated_count = 0, requests = []\<rparr>
      in \<lparr>exit_code = 0, dir_scanned = True, sent = requests st,
          table_written = (if updated_count st > 0 then Some (header # rows st) else None)\<rparr>)"
  using assms by (simp add: main_def Let_def)

lemma main_no_empty_geometry:
  "PATCH url hs (geometry_payload form_values []) \<notin> set (sent (main fmt env))"
  by (auto simp: main_def aborted_def Let_def run_files_no_empty_geometry
       split: sum.splits error.splits)

lemma main_exit_code_0:
  assumes "gpx_dir_exists env" "gpx_dir_is_dir env" "csv_exists env"
      and "read_api_token (token_file env) = Inr api_token"
      and "read_table (csv_file env) = Inr t"
  shows "exit_code (main fmt env) = 0"
proof -
  obtain header init_rows geometry_idx day_to_row where "t = (header, init_rows, geometry_idx, day_to_row)"
    by (cases t)
  with assms show ?thesis
    by (simp add: main_run Let_def)
qed


subsection \<open>The reader of the geometry text\<close>

lemma split_char_absent: "c \<notin> set s \<Longrightarrow> split_char c s = [s]"
  by (induction s) auto

lemma split_char_at: "c \<notin> set a \<Longrightarrow> split_char c (a @ c # b) = a # split_char c b"
  by (induction a) auto

lemma parse_coord_text:
  assumes "unfmt (fmt lon) = Some lon" "unfmt (fmt lat) = Some lat"
      and "CHR '' '' \<notin> set (fmt lon)" "CHR '' '' \<notin> set (fmt lat)"
  shows "parse_coord unfmt (coord_text fmt (lon, lat)) = Some (lon, lat)"
  using assms by (simp add: parse_coord_def split_char_at split_char_absent)

lemma coord_text_no_comma:
  "reads_back fmt unfmt (fst c) \<Longrightarrow> reads_back fmt unfmt (snd c) \<Longrightarrow> CHR '','' \<notin> set (coord_text fmt c)"
  by (cases c) (simp add: reads_back_def)

lemma split_body:
  assumes "\<forall>c \<in> set (c0 # cs). reads_back fmt unfmt (fst c) \<and> reads_back fmt unfmt (snd c)"
  shows "split_char CHR '','' (coord_text fmt c0 @ concat (map (\<lambda>c'. '', '' @ coord_text fmt c') cs))
         = coord_text fmt c0 # map (\<lambda>c'. '' '' @ coord_text fmt c') cs"
  using assms
proof (induction cs arbitrary: c0)
  case Nil
  then have "CHR '','' \<notin> set (coord_text fmt c0)"
    using coord_text_no_comma [of fmt unfmt c0] by simp
  then show ?case by (simp add: split_char_absent)
next
  case (Cons c cs)
  have nc: "CHR '','' \<notin> set (coord_text fmt c0)"
    using Cons.prems coord_text_no_comma [of fmt unfmt c0] by simp
  have IH: "split_char CHR '','' (coord_text fmt c @ concat (map (\<lambda>c'. '', '' @ coord_text fmt c') cs))
         = coord_text fmt c # map (\<lambda>c'. '' '' @ coord_text fmt c') cs"
    using Cons.IH [of c] Cons.prems by simp
  have "split_char CHR '','' (coord_text fmt c0 @ CHR '','' # (CHR '' '' # coord_text fmt c @ concat (map (\<lambda>c'. '', '' @ coord_text fmt c') cs)))
      = coord_text fmt c0 # split_char CHR '','' (CHR '' '' # coord_text fmt c @ concat (map (\<lambda>c'. '', '' @ coord_text fmt c') cs))"
    by (rule split_char_at [OF nc])
  then show ?case using IH by simp
qed

lemma those_map_Some: "(\<And>x. x \<in> set xs \<Longrightarrow> f x = Some (g x)) \<Longrightarrow> those (map f xs) = Some (map g xs)"
  by (induction xs) simp_all

subsection \<open>Unfolding the model on concrete data\<close>

lemmas sample_defs =
  sample_track_def other_track_def sample_record_def sample_server_def sample_env_def sample_table_def
  short_table_def

lemmas model_defs =
  main_def aborted_def read_api_token_def py_strip_def py_isspace_def read_table_def
  build_day_to_row_def add_row_def day_idx_def fulcrum_id_idx_def gpx_files_def
  glob_star_def endswith_def run_files_def process_file_def stem_def rfind_def
  extract_linestring_from_gpx_def track_coordinates_def segment_coordinates_def
  update_fulcrum_record_def record_url_def request_headers_def geometry_payload_def
  linestring_wkt_def Let_def

section \<open>The claims\<close>

subsection \<open>Geometry formatter\<close>

text \<open>
  C3. The formatter maps the empty sequence to the empty string; a sequence with first
  coordinate \<open>c\<close> and rest \<open>cs\<close> to \<^verbatim>\<open>LINESTRING(\<close>, then \<^verbatim>\<open>lon lat\<close> for \<open>c\<close>, then
  \<^verbatim>\<open>, lon' lat'\<close> for each further coordinate in order, then \<^verbatim>\<open>)\<close>; and no sequence at all
  to \<^verbatim>\<open>LINESTRING()\<close>. The formatter is a total function of its argument alone.
\<close>

theorem linestring_wkt_shape:
  "linestring_wkt fmt [] = []
   \<and> linestring_wkt fmt (c # cs) =
       ''LINESTRING('' @ coord_text fmt c @
         concat (map (\<lambda>c'. '', '' @ coord_text fmt c') cs) @ '')''
   \<and> coord_text fmt (lon, lat) = fmt lon @ '' '' @ fmt lat
   \<and> linestring_wkt fmt coords \<noteq> ''LINESTRING()''"
proof -
  have "linestring_wkt fmt [] = []"
    by (simp add: linestring_wkt_def)
  moreover have "coord_text fmt (lon, lat) = fmt lon @ '' '' @ fmt lat"
    by simp
  ultimately show ?thesis
    using linestring_wkt_Cons [of fmt c cs] linestring_wkt_not_empty_parens [of fmt coords]
    by blast
qed

subsection \<open>Record client: read, modify, write\<close>



subsection \<open>A matched track updates its row\<close>




subsection \<open>Round trip of the geometry text\<close>

text \<open>
  C4. For every coordinate sequence whose values have a text that reads back and holds no
  space and no comma (\<open>reads_back\<close>; the text of a Python float is of this kind), formatting
  the sequence and reading the coordinate list back from the text gives the same pairs in the
  same order. The empty sequence goes to the empty text and back.
\<close>

theorem linestring_wkt_round_trip:
  assumes "\<And>lon lat. (lon, lat) \<in> set coords \<Longrightarrow>
             reads_back fmt unfmt lon \<and> reads_back fmt unfmt lat"
  shows "parse_linestring_wkt unfmt (linestring_wkt fmt coords) = Some coords"
proof -
  have rb: "\<forall>c\<in>set coords. reads_back fmt unfmt (fst c) \<and> reads_back fmt unfmt (snd c)"
  proof
    fix c assume "c \<in> set coords"
    then have "(fst c, snd c) \<in> set coords" by simp
    from assms [OF this] show "reads_back fmt unfmt (fst c) \<and> reads_back fmt unfmt (snd c)" .
  qed
  show ?thesis
  proof (cases coords)
    case Nil
    then show ?thesis by (simp add: linestring_wkt_def parse_linestring_wkt_def)
  next
    case (Cons c0 cs)
    let ?body = "coord_text fmt c0 @ concat (map (\<lambda>c'. '', '' @ coord_text fmt c') cs)"
    have w: "linestring_wkt fmt coords = ''LINESTRING('' @ ?body @ '')''"
      unfolding Cons linestring_wkt_Cons by simp
    have sp: "split_char CHR '','' ?body = coord_text fmt c0 # map (\<lambda>c'. '' '' @ coord_text fmt c') cs"
      using split_body [of c0 cs fmt unfmt] rb Cons by simp
    have pc: "\<And>c. c \<in> set coords \<Longrightarrow> parse_coord unfmt (coord_text fmt c) = Some c"
    proof -
      fix c assume "c \<in> set coords"
      with rb have "reads_back fmt unfmt (fst c)" "reads_back fmt unfmt (snd c)" by auto
      then show "parse_coord unfmt (coord_text fmt c) = Some c"
        using parse_coord_text [of unfmt fmt "fst c" "snd c"] by (simp add: reads_back_def)
    qed
    have th: "those (map (parse_coord unfmt) (map (coord_text fmt) coords)) = Some coords"
      using those_map_Some [of coords "\<lambda>c. parse_coord unfmt (coord_text fmt c)" "\<lambda>c. c"] pc
      by (simp add: comp_def)
    have 1: "take 11 (''LINESTRING('' @ ?body @ '')'') = ''LINESTRING(''" by simp
    have 2: "last (''LINESTRING('' @ ?body @ '')'') = CHR '')''" by simp
    have 3: "butlast (drop 11 (''LINESTRING('' @ ?body @ '')'')) = ?body"
      by (simp add: butlast_append)
    have 4: "list_all (\<lambda>p. take 1 p = '' '') (map (\<lambda>c'. '' '' @ coord_text fmt c') cs)"
      by (simp add: list_all_iff)
    have 5: "map (drop 1) (map (\<lambda>c'. '' '' @ coord_text fmt c') cs) = map (coord_text fmt) cs"
      by simp
    show ?thesis
      unfolding w parse_linestring_wkt_def 1 2 3 sp
      using th 4 unfolding Cons by (simp add: comp_def del: those.simps)
  qed
qed

theorem linestring_wkt_round_trip_witness:
  "linestring_wkt (\<lambda>s. s) [(''-122.5'', ''37.7''), (''-122.6'', ''37.8'')]
     = ''LINESTRING(-122.5 37.7, -122.6 37.8)''
   \<and> parse_linestring_wkt Some ''LINESTRING(-122.5 37.7, -122.6 37.8)''
     = Some [(''-122.5'', ''37.7''), (''-122.6'', ''37.8'')]"
proof -
  have w: "linestring_wkt (\<lambda>s. s) [(''-122.5'', ''37.7''), (''-122.6'', ''37.8'')]
     = ''LINESTRING(-122.5 37.7, -122.6 37.8)''"
    by (simp add: linestring_wkt_def)
  have "parse_linestring_wkt Some
          (linestring_wkt (\<lambda>s. s) [(''-122.5'', ''37.7''), (''-122.6'', ''37.8'')])
        = Some [(''-122.5'', ''37.7''), (''-122.6'', ''37.8'')]"
    by (rule linestring_wkt_round_trip) (auto simp: reads_back_def)
  with w show ?thesis by simp
qed

subsection \<open>Remote failure\<close>

text \<open>
  C5. For a file matched to a row, with a track that has points: if the remote fetch is
  answered with a status other than 200, or the fetch succeeds and the remote update is
  answered with a status other than 200, then the turn of the loop for this file changes no
  row and not the update counter, the loop goes on with the next file from that state (only
  the requests sent have grown), and a run that passed its start-up checks ends with exit
  status 0.
\<close>

theorem remote_failure_leaves_row:
  assumes "day_to_row (stem gpx_file) = Some (row_idx, fulcrum_id)"
      and "extract_linestring_from_gpx (gpx_parse env) gpx_file = Inr coords"
      and "coords \<noteq> []"
      and "(\<exists>get_resp.
              server env (requests st)
                (GET (record_url fulcrum_id) (request_headers api_token)) = Inr get_resp
              \<and> status_code get_resp \<noteq> 200)
           \<or> (\<exists>get_resp body record_kvs patch_resp.
              server env (requests st)
                (GET (record_url fulcrum_id) (request_headers api_token)) = Inr get_resp
              \<and> status_code get_resp = 200
              \<and> json_body get_resp = Inr body
              \<and> py_getitem body ''record'' = Inr (JObject record_kvs)
              \<and> server env
                  (requests st @ [GET (record_url fulcrum_id) (request_headers api_token)])
                  (PATCH (record_url fulcrum_id) (request_headers api_token)
                     (geometry_payload (case map_of record_kvs ''form_values'' of
                                          None \<Rightarrow> JObject [] | Some v \<Rightarrow> v) coords))
                  = Inr patch_resp
              \<and> status_code patch_resp \<noteq> 200)"
  shows "rows (process_file fmt env api_token geometry_idx day_to_row gpx_file st) = rows st
       \<and> updated_count (process_file fmt env api_token geometry_idx day_to_row gpx_file st)
           = updated_count st
       \<and> (\<exists>log. run_files fmt env api_token geometry_idx day_to_row (gpx_file # later) st
                 = run_files fmt env api_token geometry_idx day_to_row later
                     (st\<lparr>requests := log\<rparr>))
       \<and> (gpx_dir_exists env \<and> gpx_dir_is_dir env \<and> csv_exists env
            \<and> read_api_token (token_file env) = Inr api_token
            \<and> read_table (csv_file env) = Inr (header, init_rows, geometry_idx, day_to_row)
          \<longrightarrow> exit_code (main fmt env) = 0)"
proof -
  let ?st' = "process_file fmt env api_token geometry_idx day_to_row gpx_file st"
  have "\<exists>log. ?st' = st\<lparr>requests := log\<rparr>"
  proof (cases "fulcrum_id = []")
    case True
    with assms(1) have "?st' = st" by (simp add: process_file_no_id)
    then have "?st' = st\<lparr>requests := requests st\<rparr>" by simp
    then show ?thesis ..
  next
    case False
    from assms(4) obtain log where
      "update_fulcrum_record (server env) (requests st) fulcrum_id coords api_token
         = (Inr False, log)"
      using update_fulcrum_record_fetch_refused [of "server env" "requests st" fulcrum_id api_token]
        update_fulcrum_record_patch_refused [of "server env" "requests st" fulcrum_id api_token]
      by blast
    from process_file_update [where day_to_row = day_to_row and gpx_file = gpx_file
            and fmt = fmt and geometry_idx = geometry_idx, OF assms(1) False assms(2,3) this]
    have "?st' = st\<lparr>requests := log\<rparr>" by simp
    then show ?thesis ..
  qed
  then obtain log where st': "?st' = st\<lparr>requests := log\<rparr>" ..
  then have "run_files fmt env api_token geometry_idx day_to_row (gpx_file # later) st
                 = run_files fmt env api_token geometry_idx day_to_row later
                     (st\<lparr>requests := log\<rparr>)"
    by simp
  then have "\<exists>log. run_files fmt env api_token geometry_idx day_to_row (gpx_file # later) st
                 = run_files fmt env api_token geometry_idx day_to_row later
                     (st\<lparr>requests := log\<rparr>)" ..
  moreover from st' have "rows ?st' = rows st" "updated_count ?st' = updated_count st"
    by simp_all
  ultimately show ?thesis
    using main_exit_code_0 [of env api_token "(header, init_rows, geometry_idx, day_to_row)" fmt]
    by simp
qed

theorem remote_failure_leaves_row_witness:
  "rows (process_file (\<lambda>s. s) (sample_env sample_table [''2024-05-01.gpx''] 200 500)
           ''s3cret'' 3 (build_day_to_row (tl sample_table)) ''2024-05-01.gpx''
           \<lparr>rows = tl sample_table, updated_count = 0, requests = []\<rparr>) = tl sample_table
   \<and> updated_count
        (process_file (\<lambda>s. s) (sample_env sample_table [''2024-05-01.gpx''] 200 500)
           ''s3cret'' 3 (build_day_to_row (tl sample_table)) ''2024-05-01.gpx''
           \<lparr>rows = tl sample_table, updated_count = 0, requests = []\<rparr>) = 0
   \<and> exit_code (main (\<lambda>s. s) (sample_env sample_table [''2024-05-01.gpx''] 200 500)) = 0
   \<and> table_written (main (\<lambda>s. s) (sample_env sample_table [''2024-05-01.gpx''] 200 500))
       = None"
proof -
  let ?env = "sample_env sample_table [''2024-05-01.gpx''] 200 500"
  let ?st0 = "\<lparr>rows = tl sample_table, updated_count = 0, requests = []\<rparr> :: string run_state"
  let ?resp = "\<lparr>status_code = 200, json_body = Inr sample_record\<rparr> :: string response"
  let ?kvs = "[(''id'', JString ''rec-1''),
               (''form_values'', JObject [(''c0de'', JString ''Day 1'')])]"
  let ?coords = "[(''-122.5'', ''37.7''), (''-122.6'', ''37.8'')]"
  let ?payload = "geometry_payload (case map_of ?kvs ''form_values'' of
                                     None \<Rightarrow> JObject [] | Some v \<Rightarrow> v) ?coords"
  let ?presp = "\<lparr>status_code = 500, json_body = Inr ?payload\<rparr> :: string response"
  have m: "build_day_to_row (tl sample_table) (stem ''2024-05-01.gpx'') = Some (0, ''rec-1'')"
    by (simp add: sample_table_def build_day_to_row_def add_row_def day_idx_def
          fulcrum_id_idx_def stem_def rfind_def)
  have x: "extract_linestring_from_gpx (gpx_parse ?env) ''2024-05-01.gpx'' = Inr ?coords"
    by (simp add: sample_env_def sample_track_def extract_linestring_from_gpx_def
          track_coordinates_def segment_coordinates_def)
  have n: "?coords \<noteq> []" by simp
  have "server ?env (requests ?st0)
          (GET (record_url ''rec-1'') (request_headers ''s3cret'')) = Inr ?resp
        \<and> status_code ?resp = 200
        \<and> json_body ?resp = Inr sample_record
        \<and> py_getitem sample_record ''record'' = Inr (JObject ?kvs)
        \<and> server ?env
            (requests ?st0 @ [GET (record_url ''rec-1'') (request_headers ''s3cret'')])
            (PATCH (record_url ''rec-1'') (request_headers ''s3cret'') ?payload) = Inr ?presp
        \<and> status_code ?presp \<noteq> 200"
    by (simp add: sample_env_def sample_server_def sample_record_def)
  then have f: "(\<exists>get_resp.
              server ?env (requests ?st0)
                (GET (record_url ''rec-1'') (request_headers ''s3cret'')) = Inr get_resp
              \<and> status_code get_resp \<noteq> 200)
           \<or> (\<exists>get_resp body record_kvs patch_resp.
              server ?env (requests ?st0)
                (GET (record_url ''rec-1'') (request_headers ''s3cret'')) = Inr get_resp
              \<and> status_code get_resp = 200
              \<and> json_body get_resp = Inr body
              \<and> py_getitem body ''record'' = Inr (JObject record_kvs)
              \<and> server ?env
                  (requests ?st0 @ [GET (record_url ''rec-1'') (request_headers ''s3cret'')])
                  (PATCH (record_url ''rec-1'') (request_headers ''s3cret'')
                     (geometry_payload (case map_of record_kvs ''form_values'' of
                                          None \<Rightarrow> JObject [] | Some v \<Rightarrow> v) ?coords))
                  = Inr patch_resp
              \<and> status_code patch_resp \<noteq> 200)"
    by blast
  have s: "gpx_dir_exists ?env \<and> gpx_dir_is_dir ?env \<and> csv_exists ?env
        \<and> read_api_token (token_file ?env) = Inr ''s3cret''
        \<and> read_table (csv_file ?env)
            = Inr (hd sample_table, tl sample_table, 3, build_day_to_row (tl sample_table))"
    by (simp add: sample_env_def sample_table_def read_api_token_def py_strip_def
          py_isspace_def read_table_def)
  have w: "table_written (main (\<lambda>s. s) ?env) = None"
    by (simp add: model_defs sample_defs)
  from remote_failure_leaves_row
         [where day_to_row = "build_day_to_row (tl sample_table)"
            and gpx_file = "''2024-05-01.gpx''" and env = ?env and st = ?st0
            and api_token = "''s3cret''" and fmt = "\<lambda>s. s" and geometry_idx = 3
            and header = "hd sample_table" and init_rows = "tl sample_table",
          OF m x n f] s w
  show ?thesis by simp
qed

subsection \<open>Skipped files\<close>

text \<open>
  C6. For a file whose stem is no key of the lookup, or whose matched row has an empty record
  id, or whose track has no points, the turn of the loop changes nothing: no request is sent,
  no row and not the counter changes, and the loop goes on with the next file from the same
  state. A run that passed its start-up checks ends with exit status 0. No run ever sends an
  update whose geometry has no coordinates.
\<close>

theorem skipped_file_makes_no_call:
  assumes "day_to_row (stem gpx_file) = None
           \<or> (\<exists>row_idx. day_to_row (stem gpx_file) = Some (row_idx, []))
           \<or> extract_linestring_from_gpx (gpx_parse env) gpx_file = Inr []"
  shows "process_file fmt env api_token geometry_idx day_to_row gpx_file st = st
       \<and> run_files fmt env api_token geometry_idx day_to_row (gpx_file # later) st
           = run_files fmt env api_token geometry_idx day_to_row later st
       \<and> (gpx_dir_exists env \<and> gpx_dir_is_dir env \<and> csv_exists env
            \<and> read_api_token (token_file env) = Inr api_token
            \<and> read_table (csv_file env) = Inr (header, init_rows, geometry_idx, day_to_row)
          \<longrightarrow> exit_code (main fmt env) = 0)
       \<and> PATCH url hs (geometry_payload form_values []) \<notin> set (sent (main fmt env))"
proof -
  have "process_file fmt env api_token geometry_idx day_to_row gpx_file st = st"
    using assms process_file_no_match [of day_to_row gpx_file fmt env api_token geometry_idx st]
      process_file_no_id [of day_to_row gpx_file _ fmt env api_token geometry_idx st]
      process_file_no_coords [of env gpx_file fmt api_token geometry_idx day_to_row st]
    by blast
  then show ?thesis
    using main_exit_code_0 [of env api_token "(header, init_rows, geometry_idx, day_to_row)" fmt]
      main_no_empty_geometry [of url hs form_values fmt env]
    by simp
qed

theorem skipped_file_makes_no_call_witness:
  "process_file (\<lambda>s. s)
     (sample_env sample_table [''2024-05-03.gpx'', ''2024-05-02.gpx''] 200 200)
     ''s3cret'' 3 (build_day_to_row (tl sample_table)) ''2024-05-03.gpx''
     \<lparr>rows = tl sample_table, updated_count = 0, requests = []\<rparr>
   = \<lparr>rows = tl sample_table, updated_count = 0, requests = []\<rparr>
   \<and> main (\<lambda>s. s) (sample_env sample_table [''2024-05-03.gpx'', ''2024-05-02.gpx''] 200 200)
     = \<lparr>exit_code = 0, dir_scanned = True, sent = [], table_written = None\<rparr>"
proof -
  let ?env = "sample_env sample_table [''2024-05-03.gpx'', ''2024-05-02.gpx''] 200 200"
  let ?st0 = "\<lparr>rows = tl sample_table, updated_count = 0, requests = []\<rparr> :: string run_state"
  have "build_day_to_row (tl sample_table) (stem ''2024-05-03.gpx'') = None"
    by (simp add: sample_table_def build_day_to_row_def add_row_def day_idx_def
          fulcrum_id_idx_def stem_def rfind_def)
  then have "build_day_to_row (tl sample_table) (stem ''2024-05-03.gpx'') = None
           \<or> (\<exists>row_idx. build_day_to_row (tl sample_table) (stem ''2024-05-03.gpx'')
                  = Some (row_idx, []))
           \<or> extract_linestring_from_gpx (gpx_parse ?env) ''2024-05-03.gpx'' = Inr []"
    by simp
  from skipped_file_makes_no_call
         [where day_to_row = "build_day_to_row (tl sample_table)"
            and gpx_file = "''2024-05-03.gpx''" and env = ?env and st = ?st0
            and api_token = "''s3cret''" and fmt = "\<lambda>s. s" and geometry_idx = 3, OF this]
  have "process_file (\<lambda>s. s) ?env ''s3cret'' 3 (build_day_to_row (tl sample_table))
          ''2024-05-03.gpx'' ?st0 = ?st0"
    by simp
  moreover have "main (\<lambda>s. s) ?env
     = \<lparr>exit_code = 0, dir_scanned = True, sent = [], table_written = None\<rparr>"
    by (simp add: model_defs sample_defs)
  ultimately show ?thesis by simp
qed

subsection \<open>Fatal preconditions\<close>



subsection \<open>Duplicate date keys\<close>




subsection \<open>Candidate files and their order\<close>

text \<open>
  C9, amended. The candidates are the names in the directory that end in \<^verbatim>\<open>.gpx\<close> or in
  \<^verbatim>\<open>.GPX\<close>, and no others; a name whose extension mixes the cases is not a candidate. The
  loop takes the candidates in sorted order, which depends only on the set of names in the
  directory, not on the order in which the directory lists them.
\<close>

theorem candidates_sorted_two_spellings:
  "set (sort (gpx_files names))
     = {name \<in> set names. endswith name ''.gpx'' \<or> endswith name ''.GPX''}
   \<and> sorted (sort (gpx_files names))
   \<and> (distinct names \<and> distinct names' \<and> set names = set names'
        \<longrightarrow> sort (gpx_files names) = sort (gpx_files names'))
   \<and> (gpx_dir_exists env \<and> gpx_dir_is_dir env \<and> csv_exists env
        \<and> read_api_token (token_file env) = Inr api_token
        \<and> read_table (csv_file env) = Inr (header, init_rows, geometry_idx, day_to_row)
        \<longrightarrow> main fmt env =
            (let st = run_files fmt env api_token geometry_idx day_to_row
                        (sort (gpx_files (gpx_dir_names env)))
                        \<lparr>rows = init_rows, updated_count = 0, requests = []\<rparr>
             in \<lparr>exit_code = 0, dir_scanned = True, sent = requests st,
                 table_written =
                   (if updated_count st > 0 then Some (header # rows st) else None)\<rparr>))"
  using sort_gpx_files_deterministic [of names names']
    main_run [of env api_token header init_rows geometry_idx day_to_row fmt]
  by (simp add: set_gpx_files)

theorem candidates_sorted_two_spellings_witness:
  "sort (gpx_files [''b.gpx'', ''notes.txt'', ''a.GPX'', ''a.gpx''])
     = [''a.GPX'', ''a.gpx'', ''b.gpx'']
   \<and> sort (gpx_files [''a.gpx'', ''a.GPX'', ''notes.txt'', ''b.gpx''])
     = [''a.GPX'', ''a.gpx'', ''b.gpx'']"
proof -
  let ?n = "[''b.gpx'', ''notes.txt'', ''a.GPX'', ''a.gpx'']"
  let ?n' = "[''a.gpx'', ''a.GPX'', ''notes.txt'', ''b.gpx'']"
  have "distinct ?n \<and> distinct ?n' \<and> set ?n = set ?n'" by auto
  with candidates_sorted_two_spellings [of ?n ?n']
  have "sort (gpx_files ?n) = sort (gpx_files ?n')" by blast
  moreover have "sort (gpx_files ?n) = [''a.GPX'', ''a.gpx'', ''b.gpx'']"
    by (simp add: gpx_files_def glob_star_def endswith_def)
  ultimately show ?thesis by simp
qed

theorem candidates_mixed_case_counterexample:
  "endswith (map ascii_lower ''2024-05-01.Gpx'') ''.gpx''
   \<and> ''2024-05-01.Gpx'' \<notin> set (sort (gpx_files [''2024-05-01.Gpx'']))"
  by (simp add: gpx_files_def glob_star_def endswith_def ascii_lower_def)

subsection \<open>A row too short for the geometry column\<close>



end
